theory Spec2Isabelle
  imports Main
begin

section \<open>Data model\<close>

text \<open>
  Timestamps (\<^verbatim>\<open>Date\<close>) are milliseconds since the epoch. \<^verbatim>\<open>new Date()\<close> reads
  the clock; every function that does so takes the reading as its argument \<open>now\<close>.
  Calls to the structured logger change no state and are left out.
\<close>

type_synonym time = int

text \<open>
  A field of a Stripe object that holds either the id of another object or that object
  expanded (\<^verbatim>\<open>string | Stripe.Customer | null\<close>); of an expanded object only its
  id is read.
\<close>

datatype ref = RefId string | RefObject string

text \<open>\<^verbatim>\<open>invoice.charge\<close>: an id, or the expanded charge with its \<^verbatim>\<open>failure_message\<close>.\<close>

datatype charge_ref = ChargeId string | ChargeObject "string option"

text \<open>\<^verbatim>\<open>invoice.last_finalization_error\<close>, whose \<^verbatim>\<open>message\<close> is optional.\<close>

datatype finalization_error = FinalizationError "string option"

text \<open>
  \<^verbatim>\<open>event.data.object\<close>. The handlers cast it to an invoice or a subscription without
  a check and read fields off it, so it is one record with the fields the handlers read;
  \<open>None\<close> is a field that is absent or null.
\<close>

record stripe_object =
  object_id :: string
  customer :: "ref option"
  subscription :: "ref option"
  period_start :: "int option"
  period_end :: "int option"
  amount_paid :: "int option"
  last_finalization_error :: "finalization_error option"
  charge :: "charge_ref option"
  status :: "string option"
  current_period_start :: "int option"
  current_period_end :: "int option"
  canceled_at :: "int option"
  cancel_at_period_end :: "bool option"

record stripe_event =
  event_id :: string
  event_type :: string
  data_object :: stripe_object

text \<open>
  The payload column holds JSON text. The text is represented by what \<^verbatim>\<open>JSON.parse\<close>
  makes of it: the event it decodes to, or text that the parser rejects.
\<close>

datatype payload = Json stripe_event | Malformed string

definition JSON_stringify :: "stripe_event \<Rightarrow> payload" where
  "JSON_stringify e = Json e"

text \<open>The rows of \<^verbatim>\<open>stripe_events\<close>, \<^verbatim>\<open>merchants\<close>, \<^verbatim>\<open>subscriptions\<close> and \<^verbatim>\<open>orders\<close>.\<close>

record StripeEvent =
  se_id :: string
  stripeEventId :: string
  eventType :: string
  payload :: payload
  processed :: bool
  processedAt :: "time option"
  processingError :: "string option"
  retryCount :: int
  createdAt :: time

record Merchant =
  merchant_id :: string
  stripeCustomerId :: "string option"

record Subscription =
  sub_id :: string
  sub_merchantId :: string
  stripeSubscriptionId :: string
  sub_status :: string
  currentPeriodStart :: "time option"
  currentPeriodEnd :: "time option"
  canceledAt :: "time option"
  cancelAtPeriodEnd :: bool

datatype OrderStatus = PENDING | PAID | PAYMENT_FAILED | REFUNDED | CANCELED

record Order =
  order_id :: string
  merchantId :: string
  amount :: int
  order_status :: OrderStatus
  stripeInvoiceId :: "string option"
  paidAt :: "time option"
  failedAt :: "time option"
  failureReason :: "string option"
  order_createdAt :: time

text \<open>The relational store behind \<^verbatim>\<open>PrismaService\<close>: one list of rows per table.\<close>

record db =
  stripeEvents :: "StripeEvent list"
  merchants :: "Merchant list"
  subscriptions :: "Subscription list"
  orders :: "Order list"

text \<open>
  \<^verbatim>\<open>findUnique\<close> is \<^const>\<open>find\<close> on the table. \<^verbatim>\<open>update({ where, data })\<close> rewrites the
  rows that match; the services below call it only for a key they have just read.
\<close>

definition update_where :: "('a \<Rightarrow> bool) \<Rightarrow> ('a \<Rightarrow> 'a) \<Rightarrow> 'a list \<Rightarrow> 'a list" where
  "update_where P f rows = map (\<lambda>r. if P r then f r else r) rows"

text \<open>JavaScript truthiness of a string that may be undefined: \<^verbatim>\<open>s || d\<close>.\<close>

definition or_default :: "string option \<Rightarrow> string \<Rightarrow> string" where
  "or_default s d = (case s of None \<Rightarrow> d | Some t \<Rightarrow> if t = [] then d else t)"

section \<open>OrdersService\<close>

definition getOrderByInvoiceId :: "db \<Rightarrow> string \<Rightarrow> Order option" where
  "getOrderByInvoiceId d invId = find (\<lambda>r. stripeInvoiceId r = Some invId) (orders d)"

definition markOrderAsPaid :: "time \<Rightarrow> db \<Rightarrow> string \<Rightarrow> time option \<Rightarrow> Order option \<times> db" where
  "markOrderAsPaid now d invId paid_at =
     (case find (\<lambda>r. stripeInvoiceId r = Some invId) (orders d) of
        None \<Rightarrow> (None, d)
      | Some order \<Rightarrow>
          if order_status order = PAID then (Some order, d)
          else
            (let upd = (\<lambda>r. r\<lparr>order_status := PAID,
                               paidAt := Some (case paid_at of Some t \<Rightarrow> t | None \<Rightarrow> now)\<rparr>)
             in (Some (upd order),
                 d\<lparr>orders := update_where (\<lambda>r. stripeInvoiceId r = Some invId) upd (orders d)\<rparr>)))"

definition markOrderAsPaymentFailed ::
  "time \<Rightarrow> db \<Rightarrow> string \<Rightarrow> string option \<Rightarrow> Order option \<times> db" where
  "markOrderAsPaymentFailed now d invId reason =
     (case find (\<lambda>r. stripeInvoiceId r = Some invId) (orders d) of
        None \<Rightarrow> (None, d)
      | Some order \<Rightarrow>
          if order_status order = PAID \<or> order_status order = PAYMENT_FAILED
          then (Some order, d)
          else
            (let upd = (\<lambda>r. r\<lparr>order_status := PAYMENT_FAILED,
                               failedAt := Some now,
                               failureReason := Some (or_default reason ''Payment failed'')\<rparr>)
             in (Some (upd order),
                 d\<lparr>orders := update_where (\<lambda>r. stripeInvoiceId r = Some invId) upd (orders d)\<rparr>)))"

text \<open>
  \<^verbatim>\<open>findFirst({ where, orderBy: { createdAt: 'asc' } })\<close>: the matching rows in ascending
  order of creation, rows of equal time in table order, and of those the first.
\<close>

definition findFirst_asc :: "(Order \<Rightarrow> bool) \<Rightarrow> Order list \<Rightarrow> Order option" where
  "findFirst_asc P rows =
     (case sort_key order_createdAt (filter P rows) of [] \<Rightarrow> None | r # _ \<Rightarrow> Some r)"

definition pending_match :: "string \<Rightarrow> int \<Rightarrow> Order \<Rightarrow> bool" where
  "pending_match mid amountPaid r \<longleftrightarrow>
     merchantId r = mid \<and> order_status r = PENDING \<and> stripeInvoiceId r = None
     \<and> amount r = amountPaid"

definition findAndLinkOrderToInvoice :: "db \<Rightarrow> string \<Rightarrow> string \<Rightarrow> int \<Rightarrow> Order option \<times> db" where
  "findAndLinkOrderToInvoice d mid invId amountPaid =
     (case findFirst_asc (pending_match mid amountPaid) (orders d) of
        None \<Rightarrow> (None, d)
      | Some pendingOrder \<Rightarrow>
          (let upd = (\<lambda>r. r\<lparr>stripeInvoiceId := Some invId\<rparr>)
           in (Some (upd pendingOrder),
               d\<lparr>orders := update_where (\<lambda>r. order_id r = order_id pendingOrder) upd (orders d)\<rparr>)))"

section \<open>The failure reason of an invoice\<close>

definition extractFailureReason :: "stripe_object \<Rightarrow> string" where
  "extractFailureReason invoice =
     (case last_finalization_error invoice of
        Some (FinalizationError msg) \<Rightarrow> or_default msg ''Payment failed''
      | None \<Rightarrow>
          (case charge invoice of
             Some (ChargeObject (Some m)) \<Rightarrow> if m \<noteq> [] then m else ''Payment failed''
           | _ \<Rightarrow> ''Payment failed''))"

section \<open>WebhooksService: the listing of stored events\<close>

record get_events_options =
  opt_processed :: "bool option"
  opt_eventType :: "string option"
  opt_limit :: "int option"

text \<open>
  \<^verbatim>\<open>take\<close> of the query: the first \<open>n\<close> rows of the ordered result, and for a negative
  \<open>n\<close> its last \<open>-n\<close> rows.
\<close>

definition prisma_take :: "int \<Rightarrow> 'a list \<Rightarrow> 'a list" where
  "prisma_take n rows =
     (if 0 \<le> n then take (nat n) rows else drop (length rows - nat (- n)) rows)"

text \<open>
  \<^verbatim>\<open>options?.limit || 100\<close>: an absent limit and the limit 0 are both falsy. (So is NaN,
  which the controller's \<^verbatim>\<open>parseInt\<close> yields for text that is no number; it is
  represented as an absent limit.)
\<close>

definition effective_limit :: "get_events_options option \<Rightarrow> int" where
  "effective_limit options =
     (case options of
        None \<Rightarrow> 100
      | Some opts \<Rightarrow> (case opt_limit opts of None \<Rightarrow> 100 | Some n \<Rightarrow> if n = 0 then 100 else n))"

definition events_where :: "get_events_options option \<Rightarrow> StripeEvent \<Rightarrow> bool" where
  "events_where options e \<longleftrightarrow>
     (case options of
        None \<Rightarrow> True
      | Some opts \<Rightarrow>
          (case opt_processed opts of None \<Rightarrow> True | Some p \<Rightarrow> processed e = p)
          \<and> (case opt_eventType opts of None \<Rightarrow> True | Some t \<Rightarrow> eventType e = t))"

definition getEvents :: "db \<Rightarrow> get_events_options option \<Rightarrow> StripeEvent list" where
  "getEvents d options =
     prisma_take (effective_limit options)
       (sort_key (\<lambda>e. - createdAt e) (filter (events_where options) (stripeEvents d)))"

section \<open>Exceptions\<close>

text \<open>
  What the code throws, and what its collaborators reject with: the HTTP exceptions of
  the services (\<^verbatim>\<open>WebhooksService\<close> throws the first two, \<^verbatim>\<open>OrdersService\<close> and
  \<^verbatim>\<open>MerchantsService\<close> the third for a row that is missing), the \<^verbatim>\<open>SyntaxError\<close> of
  \<^verbatim>\<open>JSON.parse\<close>, the error of an \<^verbatim>\<open>update\<close> whose \<^verbatim>\<open>where\<close> matches no row, and a
  call to the store or to the queue that is rejected because the backend does not answer.
  Each carries its message.
\<close>

datatype exn =
    BadRequestException string
  | ConflictException string
  | NotFoundException string
  | SyntaxError string
  | RecordNotFound string
  | StoreError string
  | QueueError string

fun message :: "exn \<Rightarrow> string" where
  "message (BadRequestException m) = m"
| "message (ConflictException m) = m"
| "message (NotFoundException m) = m"
| "message (SyntaxError m) = m"
| "message (RecordNotFound m) = m"
| "message (StoreError m) = m"
| "message (QueueError m) = m"

section \<open>QueueService\<close>

record WebhookJobData =
  job_eventId :: string
  job_stripeEventId :: string
  job_eventType :: string
  job_payload :: payload
  job_retryCount :: int

datatype job_state = Waiting | Active | Delayed | Completed | Failed

record Job =
  jobId :: string
  jdata :: WebhookJobData
  attemptsMade :: nat
  jstate :: job_state

text \<open>
  The queue of the library: the jobs it holds, finished ones included while they are
  retained, and whether its backend answers. A job is live when it is not finished.
\<close>

record queue =
  jobs :: "Job list"
  reachable :: bool

definition live :: "Job \<Rightarrow> bool" where
  "live j \<longleftrightarrow> jstate j = Waiting \<or> jstate j = Active \<or> jstate j = Delayed"

definition getJob :: "queue \<Rightarrow> string \<Rightarrow> Job option" where
  "getJob q jid = find (\<lambda>j. jobId j = jid) (jobs q)"

text \<open>
  \<^verbatim>\<open>Queue.add(name, data, { jobId })\<close>: a job whose id the queue already holds is not
  added again, and the job held is returned.
\<close>

definition queue_add :: "queue \<Rightarrow> WebhookJobData \<Rightarrow> string \<Rightarrow> (exn + Job) \<times> queue" where
  "queue_add q data jid =
     (if \<not> reachable q then (Inl (QueueError ''Connection is closed.''), q)
      else
        (case getJob q jid of
           Some j \<Rightarrow> (Inr j, q)
         | None \<Rightarrow>
             (let j = \<lparr>jobId = jid, jdata = data, attemptsMade = 0, jstate = Waiting\<rparr>
              in (Inr j, q\<lparr>jobs := jobs q @ [j]\<rparr>))))"

definition enqueueWebhookEvent :: "queue \<Rightarrow> WebhookJobData \<Rightarrow> (exn + string) \<times> queue" where
  "enqueueWebhookEvent q data =
     (case queue_add q data (job_stripeEventId data) of
        (Inl err, q') \<Rightarrow> (Inl err, q')
      | (Inr job, q') \<Rightarrow> (Inr (jobId job), q'))"

definition jobExists :: "queue \<Rightarrow> string \<Rightarrow> exn + bool" where
  "jobExists q sid =
     (if \<not> reachable q then Inl (QueueError ''Connection is closed.'')
      else Inr (getJob q sid \<noteq> None))"

section \<open>WebhooksService: ingestion and manual reprocessing\<close>

text \<open>
  \<^verbatim>\<open>StripeService.verifyWebhookSignature\<close> hands the body and the signature header to
  the provider's library, which returns the event or throws; it is a parameter here.
\<close>

type_synonym verifier = "string \<Rightarrow> string \<Rightarrow> exn + stripe_event"

definition job_of :: "StripeEvent \<Rightarrow> string \<Rightarrow> string \<Rightarrow> WebhookJobData" where
  "job_of row sid ty =
     \<lparr>job_eventId = se_id row, job_stripeEventId = sid, job_eventType = ty,
      job_payload = payload row, job_retryCount = retryCount row\<rparr>"

text \<open>
  \<open>newId\<close> is the id the store generates for a created row, \<open>now\<close> its creation time.
\<close>

definition handleWebhook ::
  "verifier \<Rightarrow> time \<Rightarrow> string \<Rightarrow> db \<Rightarrow> queue \<Rightarrow> string \<Rightarrow> string
     \<Rightarrow> (exn + StripeEvent) \<times> db \<times> queue" where
  "handleWebhook verifyWebhookSignature now newId d q body signature =
     (case verifyWebhookSignature body signature of
        Inl _ \<Rightarrow> (Inl (BadRequestException ''Invalid webhook signature''), d, q)
      | Inr event \<Rightarrow>
          (case find (\<lambda>e. stripeEventId e = event_id event) (stripeEvents d) of
             Some existingEvent \<Rightarrow>
               if \<not> processed existingEvent then
                 (case jobExists q (event_id event) of
                    Inl err \<Rightarrow> (Inl err, d, q)
                  | Inr exists \<Rightarrow>
                      if \<not> exists then
                        (case enqueueWebhookEvent q
                                (job_of existingEvent (event_id event) (event_type event)) of
                           (Inl err, q') \<Rightarrow> (Inl err, d, q')
                         | (Inr _, q') \<Rightarrow> (Inr existingEvent, d, q'))
                      else (Inr existingEvent, d, q))
               else (Inr existingEvent, d, q)
           | None \<Rightarrow>
               (let stripeEvent =
                      \<lparr>se_id = newId, stripeEventId = event_id event,
                       eventType = event_type event, payload = JSON_stringify event,
                       processed = False, processedAt = None, processingError = None,
                       retryCount = 0, createdAt = now\<rparr>;
                    d' = d\<lparr>stripeEvents := stripeEvents d @ [stripeEvent]\<rparr>
                in (case enqueueWebhookEvent q
                           \<lparr>job_eventId = se_id stripeEvent, job_stripeEventId = event_id event,
                            job_eventType = event_type event, job_payload = payload stripeEvent,
                            job_retryCount = 0\<rparr> of
                      (Inl _, q') \<Rightarrow> (Inr stripeEvent, d', q')
                    | (Inr _, q') \<Rightarrow> (Inr stripeEvent, d', q')))))"

definition reprocessEvent :: "db \<Rightarrow> queue \<Rightarrow> string \<Rightarrow> (exn + unit) \<times> db \<times> queue" where
  "reprocessEvent d q sid =
     (case find (\<lambda>e. stripeEventId e = sid) (stripeEvents d) of
        None \<Rightarrow> (Inl (BadRequestException (''Event '' @ sid @ '' not found'')), d, q)
      | Some event \<Rightarrow>
          if processed event
          then (Inl (ConflictException (''Event '' @ sid @ '' already processed'')), d, q)
          else
            (case enqueueWebhookEvent q (job_of event (stripeEventId event) (eventType event)) of
               (Inl err, q') \<Rightarrow> (Inl err, d, q')
             | (Inr _, q') \<Rightarrow> (Inr (), d, q')))"

section \<open>MerchantsService\<close>

definition getMerchantByStripeCustomerId :: "db \<Rightarrow> string \<Rightarrow> Merchant option" where
  "getMerchantByStripeCustomerId d cid = find (\<lambda>m. stripeCustomerId m = Some cid) (merchants d)"

text \<open>
  The \<^verbatim>\<open>additionalData\<close> of \<^verbatim>\<open>updateSubscriptionStatus\<close>. A field that is undefined
  in the \<^verbatim>\<open>data\<close> of an update leaves the column as it is.
\<close>

record additionalData =
  ad_currentPeriodStart :: "time option"
  ad_currentPeriodEnd :: "time option"
  ad_canceledAt :: "time option"
  ad_cancelAtPeriodEnd :: "bool option"

definition no_additionalData :: additionalData where
  "no_additionalData =
     \<lparr>ad_currentPeriodStart = None, ad_currentPeriodEnd = None,
      ad_canceledAt = None, ad_cancelAtPeriodEnd = None\<rparr>"

definition apply_subscription_data ::
  "string option \<Rightarrow> additionalData \<Rightarrow> Subscription \<Rightarrow> Subscription" where
  "apply_subscription_data st ad s =
     s\<lparr>sub_status := (case st of None \<Rightarrow> sub_status s | Some v \<Rightarrow> v),
       currentPeriodStart :=
         (case ad_currentPeriodStart ad of None \<Rightarrow> currentPeriodStart s | Some v \<Rightarrow> Some v),
       currentPeriodEnd :=
         (case ad_currentPeriodEnd ad of None \<Rightarrow> currentPeriodEnd s | Some v \<Rightarrow> Some v),
       canceledAt := (case ad_canceledAt ad of None \<Rightarrow> canceledAt s | Some v \<Rightarrow> Some v),
       cancelAtPeriodEnd :=
         (case ad_cancelAtPeriodEnd ad of None \<Rightarrow> cancelAtPeriodEnd s | Some v \<Rightarrow> v)\<rparr>"

definition updateSubscriptionStatus ::
  "db \<Rightarrow> string \<Rightarrow> string option \<Rightarrow> additionalData \<Rightarrow> Subscription option \<times> db" where
  "updateSubscriptionStatus d sid st ad =
     (case find (\<lambda>s. stripeSubscriptionId s = sid) (subscriptions d) of
        None \<Rightarrow> (None, d)
      | Some existing \<Rightarrow>
          (Some (apply_subscription_data st ad existing),
           d\<lparr>subscriptions :=
               update_where (\<lambda>s. stripeSubscriptionId s = sid) (apply_subscription_data st ad)
                 (subscriptions d)\<rparr>))"

section \<open>WebhookProcessorService\<close>

text \<open>
  The handlers await \<^verbatim>\<open>MerchantsService\<close> and \<^verbatim>\<open>OrdersService\<close>, and an awaited
  call is rejected when the store behind the service does not answer. \<open>flt s\<close> says that
  the calls to service \<open>s\<close> are rejected during the run; \<^term>\<open>no_faults\<close> is the run in
  which every call is answered. A handler returns what it threw, if anything, and the
  store as its calls have left it: both services write through \<^verbatim>\<open>this.prisma\<close>, never
  through the transaction client, so each of their writes is committed when it is made.
\<close>

datatype service = MerchantsService | OrdersService

type_synonym faults = "service \<Rightarrow> bool"

definition no_faults :: faults where
  "no_faults = (\<lambda>_. False)"

definition store_rejects :: "service \<Rightarrow> exn" where
  "store_rejects s =
     StoreError (case s of MerchantsService \<Rightarrow> ''merchants store unavailable''
                         | OrdersService \<Rightarrow> ''orders store unavailable'')"

text \<open>
  \<^verbatim>\<open>typeof x === 'string' ? x : x?.id\<close> for the customer, and the id of the subscription
  when \<^verbatim>\<open>invoice.subscription\<close> is truthy (an empty string is not).
\<close>

definition customerId_of :: "stripe_object \<Rightarrow> string option" where
  "customerId_of invoice =
     (case customer invoice of
        None \<Rightarrow> None
      | Some (RefId s) \<Rightarrow> Some s
      | Some (RefObject i) \<Rightarrow> Some i)"

definition subscriptionId_of :: "stripe_object \<Rightarrow> string option" where
  "subscriptionId_of invoice =
     (case subscription invoice of
        None \<Rightarrow> None
      | Some (RefId s) \<Rightarrow> if s = [] then None else Some s
      | Some (RefObject i) \<Rightarrow> Some i)"

text \<open>\<^verbatim>\<open>n ? new Date(n * 1000) : undefined\<close>: 0 is falsy.\<close>

definition date_of_seconds :: "int option \<Rightarrow> time option" where
  "date_of_seconds n =
     (case n of None \<Rightarrow> None | Some k \<Rightarrow> if k = 0 then None else Some (k * 1000))"

text \<open>\<^verbatim>\<open>invoice.amount_paid || 0\<close>\<close>

definition amountPaid_of :: "stripe_object \<Rightarrow> int" where
  "amountPaid_of invoice = (case amount_paid invoice of None \<Rightarrow> 0 | Some a \<Rightarrow> a)"

text \<open>
  \<^verbatim>\<open>customerId ? await getMerchantByStripeCustomerId(customerId) : null\<close>
\<close>

definition resolveMerchant :: "faults \<Rightarrow> db \<Rightarrow> string option \<Rightarrow> exn + Merchant option" where
  "resolveMerchant flt d customerId =
     (case customerId of
        None \<Rightarrow> Inr None
      | Some cid \<Rightarrow>
          if cid = [] then Inr None
          else if flt MerchantsService then Inl (store_rejects MerchantsService)
          else Inr (getMerchantByStripeCustomerId d cid))"

definition handleInvoicePaymentSucceeded ::
  "faults \<Rightarrow> time \<Rightarrow> db \<Rightarrow> stripe_event \<Rightarrow> (exn + unit) \<times> db" where
  "handleInvoicePaymentSucceeded flt now d event =
     (let invoice = data_object event in
      case resolveMerchant flt d (customerId_of invoice) of
        Inl err \<Rightarrow> (Inl err, d)
      | Inr None \<Rightarrow> (Inr (), d)
      | Inr (Some merchant) \<Rightarrow>
          (let d1 =
                 (case subscriptionId_of invoice of
                    None \<Rightarrow> d
                  | Some subscriptionId \<Rightarrow>
                      snd (updateSubscriptionStatus d subscriptionId (Some ''active'')
                             (no_additionalData
                                \<lparr>ad_currentPeriodStart := date_of_seconds (period_start invoice),
                                 ad_currentPeriodEnd := date_of_seconds (period_end invoice)\<rparr>)))
           in if flt OrdersService then (Inl (store_rejects OrdersService), d1)
              else
                (case getOrderByInvoiceId d1 (object_id invoice) of
                   Some order \<Rightarrow>
                     (Inr (), snd (markOrderAsPaid now d1 (object_id invoice) (Some now)))
                 | None \<Rightarrow>
                     (let amountPaid = amountPaid_of invoice
                      in case findAndLinkOrderToInvoice d1 (merchant_id merchant)
                                (object_id invoice) amountPaid of
                           (Some linkedOrder, d2) \<Rightarrow>
                             (Inr (), snd (markOrderAsPaid now d2 (object_id invoice) (Some now)))
                         | (None, d2) \<Rightarrow> (Inr (), d2)))))"

definition handleInvoicePaymentFailed ::
  "faults \<Rightarrow> time \<Rightarrow> db \<Rightarrow> stripe_event \<Rightarrow> (exn + unit) \<times> db" where
  "handleInvoicePaymentFailed flt now d event =
     (let invoice = data_object event;
          failureReason = extractFailureReason invoice in
      case resolveMerchant flt d (customerId_of invoice) of
        Inl err \<Rightarrow> (Inl err, d)
      | Inr None \<Rightarrow> (Inr (), d)
      | Inr (Some merchant) \<Rightarrow>
          (let d1 =
                 (case subscriptionId_of invoice of
                    None \<Rightarrow> d
                  | Some subscriptionId \<Rightarrow>
                      snd (updateSubscriptionStatus d subscriptionId (Some ''past_due'')
                             no_additionalData))
           in if flt OrdersService then (Inl (store_rejects OrdersService), d1)
              else
                (case getOrderByInvoiceId d1 (object_id invoice) of
                   Some order \<Rightarrow>
                     (Inr (),
                      snd (markOrderAsPaymentFailed now d1 (object_id invoice) (Some failureReason)))
                 | None \<Rightarrow> (Inr (), d1))))"

definition handleSubscriptionUpdated ::
  "faults \<Rightarrow> time \<Rightarrow> db \<Rightarrow> stripe_event \<Rightarrow> (exn + unit) \<times> db" where
  "handleSubscriptionUpdated flt now d event =
     (let subscr = data_object event in
      if flt MerchantsService then (Inl (store_rejects MerchantsService), d)
      else
        (Inr (),
         snd (updateSubscriptionStatus d (object_id subscr) (status subscr)
                \<lparr>ad_currentPeriodStart = date_of_seconds (current_period_start subscr),
                 ad_currentPeriodEnd = date_of_seconds (current_period_end subscr),
                 ad_canceledAt = date_of_seconds (canceled_at subscr),
                 ad_cancelAtPeriodEnd = cancel_at_period_end subscr\<rparr>)))"

definition handleSubscriptionDeleted ::
  "faults \<Rightarrow> time \<Rightarrow> db \<Rightarrow> stripe_event \<Rightarrow> (exn + unit) \<times> db" where
  "handleSubscriptionDeleted flt now d event =
     (let subscr = data_object event in
      if flt MerchantsService then (Inl (store_rejects MerchantsService), d)
      else
        (Inr (),
         snd (updateSubscriptionStatus d (object_id subscr) (Some ''canceled'')
                (no_additionalData\<lparr>ad_canceledAt := Some now\<rparr>))))"

definition recognized :: "string \<Rightarrow> bool" where
  "recognized ty \<longleftrightarrow>
     ty = ''invoice.payment_succeeded'' \<or> ty = ''invoice.payment_failed''
     \<or> ty = ''customer.subscription.updated'' \<or> ty = ''customer.subscription.deleted''"

definition processEventByType ::
  "faults \<Rightarrow> time \<Rightarrow> db \<Rightarrow> stripe_event \<Rightarrow> (exn + unit) \<times> db" where
  "processEventByType flt now d event =
     (if event_type event = ''invoice.payment_succeeded''
        then handleInvoicePaymentSucceeded flt now d event
      else if event_type event = ''invoice.payment_failed''
        then handleInvoicePaymentFailed flt now d event
      else if event_type event = ''customer.subscription.updated''
        then handleSubscriptionUpdated flt now d event
      else if event_type event = ''customer.subscription.deleted''
        then handleSubscriptionDeleted flt now d event
      else (Inr (), d))"

text \<open>
  \<^verbatim>\<open>stripeEvent.update({ where: { id }, data })\<close> throws when no row has the id.
\<close>

definition stripeEvent_update ::
  "StripeEvent list \<Rightarrow> string \<Rightarrow> (StripeEvent \<Rightarrow> StripeEvent) \<Rightarrow> exn + StripeEvent list" where
  "stripeEvent_update rows i f =
     (case find (\<lambda>e. se_id e = i) rows of
        None \<Rightarrow> Inl (RecordNotFound ''Record to update not found.'')
      | Some _ \<Rightarrow> Inr (update_where (\<lambda>e. se_id e = i) f rows))"

definition JSON_parse :: "payload \<Rightarrow> exn + stripe_event" where
  "JSON_parse p =
     (case p of
        Json event \<Rightarrow> Inr event
      | Malformed _ \<Rightarrow> Inl (SyntaxError ''Unexpected token in JSON''))"

text \<open>
  The callback of \<^verbatim>\<open>prisma.$transaction\<close>. Of its calls only the read and the update of
  the \<^verbatim>\<open>stripe_events\<close> row go through the transaction client \<^verbatim>\<open>tx\<close>. It returns what it
  threw or, when it returned, the table the transaction is about to commit (\<open>None\<close> when
  it wrote nothing), together with the store as the handlers' own writes have left it.
\<close>

definition transaction_body ::
  "faults \<Rightarrow> time \<Rightarrow> db \<Rightarrow> Job \<Rightarrow> (exn + StripeEvent list option) \<times> db" where
  "transaction_body flt now d job =
     (let data = jdata job;
          existingEvent = find (\<lambda>e. stripeEventId e = job_stripeEventId data) (stripeEvents d)
      in if (case existingEvent of None \<Rightarrow> False | Some e \<Rightarrow> processed e) then (Inr None, d)
         else
           (case JSON_parse (job_payload data) of
              Inl err \<Rightarrow> (Inl err, d)
            | Inr event \<Rightarrow>
                (case processEventByType flt now d event of
                   (Inl err, d1) \<Rightarrow> (Inl err, d1)
                 | (Inr _, d1) \<Rightarrow>
                     (case stripeEvent_update (stripeEvents d1) (job_eventId data)
                             (\<lambda>e. e\<lparr>processed := True, processedAt := Some now,
                                     retryCount := int (attemptsMade job)\<rparr>) of
                        Inl err \<Rightarrow> (Inl err, d1)
                      | Inr rows \<Rightarrow> (Inr (Some rows), d1)))))"

text \<open>
  \<^verbatim>\<open>processJob\<close>: the transaction commits what its callback wrote through \<^verbatim>\<open>tx\<close> when the
  callback returns, and drops it when the callback throws; the \<^verbatim>\<open>catch\<close> then writes
  the error and the retry count with the plain client and throws again.
\<close>

definition processJob :: "faults \<Rightarrow> time \<Rightarrow> db \<Rightarrow> Job \<Rightarrow> (exn + unit) \<times> db" where
  "processJob flt now d job =
     (case transaction_body flt now d job of
        (Inr None, d1) \<Rightarrow> (Inr (), d1)
      | (Inr (Some rows), d1) \<Rightarrow> (Inr (), d1\<lparr>stripeEvents := rows\<rparr>)
      | (Inl err, d1) \<Rightarrow>
          (case stripeEvent_update (stripeEvents d1) (job_eventId (jdata job))
                  (\<lambda>e. e\<lparr>retryCount := int (attemptsMade job) + 1,
                          processingError := Some (message err)\<rparr>) of
             Inl err2 \<Rightarrow> (Inl err2, d1)
           | Inr rows \<Rightarrow> (Inl err, d1\<lparr>stripeEvents := rows\<rparr>)))"

section \<open>Notions used by the properties\<close>

text \<open>The status of the order that references an invoice, if there is one.\<close>

definition orderStatusOf :: "db \<Rightarrow> string \<Rightarrow> OrderStatus option" where
  "orderStatusOf d invId = map_option order_status (getOrderByInvoiceId d invId)"

text \<open>
  A job refers to a stored event when its internal id and its provider event id both
  find that row. Ingestion and reprocessing build the job data from one row, so their
  jobs refer to it.
\<close>

definition job_refers :: "db \<Rightarrow> Job \<Rightarrow> StripeEvent \<Rightarrow> bool" where
  "job_refers d job row \<longleftrightarrow>
     find (\<lambda>e. se_id e = job_eventId (jdata job)) (stripeEvents d) = Some row
     \<and> find (\<lambda>e. stripeEventId e = job_stripeEventId (jdata job)) (stripeEvents d) = Some row"

text \<open>The job that ingestion adds for a stored row on a repeated delivery of \<open>event\<close>.\<close>

definition heal_job :: "StripeEvent \<Rightarrow> stripe_event \<Rightarrow> Job" where
  "heal_job row event =
     \<lparr>jobId = event_id event, jdata = job_of row (event_id event) (event_type event),
      attemptsMade = 0, jstate = Waiting\<rparr>"

text \<open>The job that manual reprocessing adds for a stored row.\<close>

definition reprocess_job :: "StripeEvent \<Rightarrow> Job" where
  "reprocess_job row =
     \<lparr>jobId = stripeEventId row, jdata = job_of row (stripeEventId row) (eventType row),
      attemptsMade = 0, jstate = Waiting\<rparr>"


text \<open>
  The failure reason as the specification words it: the first non-empty string among
  the finalization error's message and the charge's failure message, else the default.
\<close>

definition finalization_message :: "stripe_object \<Rightarrow> string option" where
  "finalization_message invoice =
     (case last_finalization_error invoice of
        None \<Rightarrow> None
      | Some (FinalizationError msg) \<Rightarrow> msg)"

definition charge_failure_message :: "stripe_object \<Rightarrow> string option" where
  "charge_failure_message invoice =
     (case charge invoice of Some (ChargeObject msg) \<Rightarrow> msg | _ \<Rightarrow> None)"

definition first_non_empty_reason :: "stripe_object \<Rightarrow> string" where
  "first_non_empty_reason invoice =
     (case filter (\<lambda>s. s \<noteq> [])
             (List.map_filter (\<lambda>x. x) [finalization_message invoice, charge_failure_message invoice]) of
        [] \<Rightarrow> ''Payment failed''
      | m # _ \<Rightarrow> m)"


section \<open>Sample data\<close>

definition ex_invoice :: stripe_object where
  "ex_invoice =
     \<lparr>object_id = ''in_1'', customer = Some (RefId ''cus_1''), subscription = Some (RefId ''sub_1''),
      period_start = Some 100, period_end = Some 200, amount_paid = Some 2999,
      last_finalization_error = None, charge = None, status = None,
      current_period_start = None, current_period_end = None, canceled_at = None,
      cancel_at_period_end = None\<rparr>"

definition ex_event :: "string \<Rightarrow> stripe_event" where
  "ex_event ty = \<lparr>event_id = ''evt_1'', event_type = ty, data_object = ex_invoice\<rparr>"

definition ex_row :: "stripe_event \<Rightarrow> StripeEvent" where
  "ex_row ev =
     \<lparr>se_id = ''e1'', stripeEventId = event_id ev, eventType = event_type ev,
      payload = JSON_stringify ev, processed = False, processedAt = None,
      processingError = None, retryCount = 0, createdAt = 1\<rparr>"

definition ex_order :: "string \<Rightarrow> int \<Rightarrow> time \<Rightarrow> Order" where
  "ex_order i a t =
     \<lparr>order_id = i, merchantId = ''m1'', amount = a, order_status = PENDING,
      stripeInvoiceId = None, paidAt = None, failedAt = None, failureReason = None,
      order_createdAt = t\<rparr>"

definition ex_merchant :: Merchant where
  "ex_merchant = \<lparr>merchant_id = ''m1'', stripeCustomerId = Some ''cus_1''\<rparr>"

definition ex_db :: "StripeEvent list \<Rightarrow> Order list \<Rightarrow> db" where
  "ex_db rows ords =
     \<lparr>stripeEvents = rows,
      merchants = [ex_merchant],
      subscriptions =
        [\<lparr>sub_id = ''s1'', sub_merchantId = ''m1'', stripeSubscriptionId = ''sub_1'',
          sub_status = ''incomplete'', currentPeriodStart = None, currentPeriodEnd = None,
          canceledAt = None, cancelAtPeriodEnd = False\<rparr>],
      orders = ords\<rparr>"

definition ex_orders :: "Order list" where
  "ex_orders = [ex_order ''o1'' 500 3, ex_order ''o2'' 2999 5, ex_order ''o3'' 2999 4]"

definition ex_job :: "StripeEvent \<Rightarrow> nat \<Rightarrow> Job" where
  "ex_job row n =
     \<lparr>jobId = stripeEventId row, jdata = job_of row (stripeEventId row) (eventType row),
      attemptsMade = n, jstate = Active\<rparr>"

definition ex_queue :: "bool \<Rightarrow> queue" where
  "ex_queue up = \<lparr>jobs = [], reachable = up\<rparr>"

definition ex_verifier :: "stripe_event \<Rightarrow> verifier" where
  "ex_verifier ev = (\<lambda>body signature. Inr ev)"

text \<open>The run in which the orders store does not answer.\<close>

definition orders_fail :: faults where
  "orders_fail = (\<lambda>s. s = OrdersService)"

section \<open>Facts about the store\<close>

lemmas ex_defs = ex_invoice_def ex_event_def ex_row_def ex_order_def ex_orders_def
  ex_merchant_def ex_db_def ex_job_def ex_queue_def ex_verifier_def job_of_def
  JSON_stringify_def

lemma find_update_where:
  "(\<And>r. P r \<Longrightarrow> P (f r)) \<Longrightarrow> find P (update_where P f rows) = map_option f (find P rows)"
  by (induction rows) (auto simp: update_where_def)

lemma find_id_update_where:
  assumes "\<And>r. se_id (f r) = se_id r"
  shows "find (\<lambda>e. se_id e = i) (update_where (\<lambda>e. se_id e = j) f rows) =
     map_option (\<lambda>r. if se_id r = j then f r else r) (find (\<lambda>e. se_id e = i) rows)"
  by (induction rows) (auto simp: update_where_def assms)

section \<open>Order status transitions\<close>

lemma markOrderAsPaid_status:
  assumes "getOrderByInvoiceId d invId = Some ord"
  shows "orderStatusOf (snd (markOrderAsPaid now d invId pa)) invId = Some PAID"
  using assms
  by (auto simp: markOrderAsPaid_def getOrderByInvoiceId_def orderStatusOf_def Let_def
      find_update_where)


lemma markOrderAsPaymentFailed_status:
  assumes "getOrderByInvoiceId d invId = Some ord"
  shows "orderStatusOf (snd (markOrderAsPaymentFailed now d invId reason)) invId =
     Some (if order_status ord = PAID then PAID else PAYMENT_FAILED)"
  using assms
  by (auto simp: markOrderAsPaymentFailed_def getOrderByInvoiceId_def orderStatusOf_def
      Let_def find_update_where)



section \<open>The listing of stored events\<close>

lemma sorted_desc_sort_key:
  "sorted_wrt (\<lambda>a b. createdAt b \<le> createdAt a) (sort_key (\<lambda>e. - createdAt e) rows)"
proof -
  have "sorted (map (\<lambda>e. - createdAt e) (sort_key (\<lambda>e. - createdAt e) rows))"
    by (rule sorted_sort_key)
  then show ?thesis by (simp add: sorted_map)
qed

lemma sorted_wrt_prisma_take: "sorted_wrt R rows \<Longrightarrow> sorted_wrt R (prisma_take n rows)"
  by (simp add: prisma_take_def)

text \<open>
  C10. The listing is ordered newest first by creation time, whatever the options. With
  no options, with no limit and with limit 0 it returns at most 100 events; limit 0
  returns what an absent limit returns, the first 100 of the ordered matches, not an
  empty page.
\<close>

theorem getEvents_newest_first_capped:
  "sorted_wrt (\<lambda>a b. createdAt b \<le> createdAt a) (getEvents d options)
   \<and> length (getEvents d None) \<le> 100
   \<and> length (getEvents d (Some (opts\<lparr>opt_limit := None\<rparr>))) \<le> 100
   \<and> length (getEvents d (Some (opts\<lparr>opt_limit := Some 0\<rparr>))) \<le> 100
   \<and> getEvents d (Some (opts\<lparr>opt_limit := Some 0\<rparr>))
       = getEvents d (Some (opts\<lparr>opt_limit := None\<rparr>))
   \<and> getEvents d (Some (opts\<lparr>opt_limit := Some 0\<rparr>)) =
       take 100 (sort_key (\<lambda>e. - createdAt e)
                   (filter (events_where (Some opts)) (stripeEvents d)))"
proof -
  have s: "sorted_wrt (\<lambda>a b. createdAt b \<le> createdAt a) (getEvents d options)"
    unfolding getEvents_def by (rule sorted_wrt_prisma_take) (rule sorted_desc_sort_key)
  have w: "events_where (Some (opts\<lparr>opt_limit := l\<rparr>)) = events_where (Some opts)" for l
    by (rule ext) (simp add: events_where_def)
  show ?thesis using s
    by (simp add: getEvents_def effective_limit_def prisma_take_def w)
qed

section \<open>The handlers leave the table of stored events alone\<close>

lemma updateSubscriptionStatus_frame:
  "stripeEvents (snd (updateSubscriptionStatus d sid st ad)) = stripeEvents d"
  "orders (snd (updateSubscriptionStatus d sid st ad)) = orders d"
  "merchants (snd (updateSubscriptionStatus d sid st ad)) = merchants d"
  by (simp_all add: updateSubscriptionStatus_def split: option.splits)

lemma markOrderAsPaid_events:
  "stripeEvents (snd (markOrderAsPaid now d i pa)) = stripeEvents d"
  by (simp add: markOrderAsPaid_def Let_def split: option.splits)

lemma markOrderAsPaymentFailed_events:
  "stripeEvents (snd (markOrderAsPaymentFailed now d i rs)) = stripeEvents d"
  by (simp add: markOrderAsPaymentFailed_def Let_def split: option.splits)

lemma findAndLinkOrderToInvoice_events:
  "stripeEvents (snd (findAndLinkOrderToInvoice d m i a)) = stripeEvents d"
  by (simp add: findAndLinkOrderToInvoice_def Let_def split: option.splits)

lemma handleInvoicePaymentSucceeded_events:
  "stripeEvents (snd (handleInvoicePaymentSucceeded flt now d ev)) = stripeEvents d"
  unfolding handleInvoicePaymentSucceeded_def Let_def
  by (auto split: sum.splits option.splits prod.splits
      simp: updateSubscriptionStatus_frame markOrderAsPaid_events
        findAndLinkOrderToInvoice_events
      dest!: arg_cong [where f = "\<lambda>p. stripeEvents (snd p)"])

lemma handleInvoicePaymentFailed_events:
  "stripeEvents (snd (handleInvoicePaymentFailed flt now d ev)) = stripeEvents d"
  unfolding handleInvoicePaymentFailed_def Let_def
  by (auto split: sum.splits option.splits
      simp: updateSubscriptionStatus_frame markOrderAsPaymentFailed_events)

lemma processEventByType_events:
  "stripeEvents (snd (processEventByType flt now d ev)) = stripeEvents d"
  by (simp add: processEventByType_def handleInvoicePaymentSucceeded_events
      handleInvoicePaymentFailed_events handleSubscriptionUpdated_def
      handleSubscriptionDeleted_def updateSubscriptionStatus_frame Let_def)

lemma transaction_body_events:
  "stripeEvents (snd (transaction_body flt now d job)) = stripeEvents d"
proof -
  have e: "processEventByType flt now d ev = (r, d1) \<Longrightarrow> stripeEvents d1 = stripeEvents d"
    for ev r d1
    using processEventByType_events [of flt now d ev] by simp
  show ?thesis
    unfolding transaction_body_def Let_def
    by (auto split: sum.splits option.splits prod.splits dest: e)
qed

section \<open>The two ways a job ends\<close>

lemma processJob_success:
  assumes unproc: "\<not> (case find (\<lambda>e. stripeEventId e = job_stripeEventId (jdata job)) (stripeEvents d)
                       of None \<Rightarrow> False | Some e \<Rightarrow> processed e)"
    and pl: "job_payload (jdata job) = Json ev"
    and ok: "fst (processEventByType flt now d ev) = Inr ()"
    and row: "find (\<lambda>e. se_id e = job_eventId (jdata job)) (stripeEvents d) = Some row"
  shows "processJob flt now d job =
     (Inr (), (snd (processEventByType flt now d ev))
        \<lparr>stripeEvents := update_where (\<lambda>e. se_id e = job_eventId (jdata job))
            (\<lambda>e. e\<lparr>processed := True, processedAt := Some now,
                    retryCount := int (attemptsMade job)\<rparr>) (stripeEvents d)\<rparr>)"
proof -
  obtain d1 where p: "processEventByType flt now d ev = (Inr (), d1)"
    using ok by (cases "processEventByType flt now d ev") auto
  have e: "stripeEvents d1 = stripeEvents d"
    using processEventByType_events [of flt now d ev] p by simp
  have t: "transaction_body flt now d job =
     (Inr (Some (update_where (\<lambda>e. se_id e = job_eventId (jdata job))
            (\<lambda>e. e\<lparr>processed := True, processedAt := Some now,
                    retryCount := int (attemptsMade job)\<rparr>) (stripeEvents d))), d1)"
    using unproc
    by (simp add: transaction_body_def Let_def pl JSON_parse_def p e stripeEvent_update_def row)
  show ?thesis by (simp add: processJob_def t p)
qed

lemma processJob_failure:
  assumes t: "transaction_body flt now d job = (Inl err, d1)"
    and row: "find (\<lambda>e. se_id e = job_eventId (jdata job)) (stripeEvents d) = Some row"
  shows "processJob flt now d job =
     (Inl err, d1\<lparr>stripeEvents := update_where (\<lambda>e. se_id e = job_eventId (jdata job))
            (\<lambda>e. e\<lparr>retryCount := int (attemptsMade job) + 1,
                    processingError := Some (message err)\<rparr>) (stripeEvents d)\<rparr>)"
proof -
  have e: "stripeEvents d1 = stripeEvents d"
    using transaction_body_events [of flt now d job] t by simp
  show ?thesis by (simp add: processJob_def t e stripeEvent_update_def row)
qed

text \<open>
  C2. When the stored event that the job's provider event id finds is already processed
  at the start of the transaction, \<^verbatim>\<open>processJob\<close> returns normally and the store is
  what it was: no table of the domain and no stored event has changed. This holds in
  every run, with or without rejected store calls.
\<close>

theorem processJob_already_processed:
  assumes "find (\<lambda>e. stripeEventId e = job_stripeEventId (jdata job)) (stripeEvents d) = Some row"
    and "processed row"
  shows "processJob flt now d job = (Inr (), d)"
  using assms by (simp add: processJob_def transaction_body_def Let_def)

theorem processJob_already_processed_witness:
  "processJob no_faults 9
     (ex_db [(ex_row (ex_event ''invoice.payment_succeeded''))\<lparr>processed := True\<rparr>] ex_orders)
     (ex_job (ex_row (ex_event ''invoice.payment_succeeded'')) 1)
   = (Inr (),
      ex_db [(ex_row (ex_event ''invoice.payment_succeeded''))\<lparr>processed := True\<rparr>] ex_orders)"
proof -
  let ?row = "(ex_row (ex_event ''invoice.payment_succeeded''))\<lparr>processed := True\<rparr>"
  let ?job = "ex_job (ex_row (ex_event ''invoice.payment_succeeded'')) 1"
  have h1: "find (\<lambda>e. stripeEventId e = job_stripeEventId (jdata ?job))
              (stripeEvents (ex_db [?row] ex_orders)) = Some ?row"
    by (simp add: ex_defs)
  have h2: "processed ?row" by simp
  show ?thesis by (rule processJob_already_processed [OF h1 h2])
qed

text \<open>
  C6. A job whose payload decodes to an event of none of the four recognized types, and
  which refers to a stored event, returns normally in every run; merchants,
  subscriptions and orders are what they were; the stored event is processed afterwards
  and its last processing error is what it was before.
\<close>

theorem unknown_type_marked_processed:
  assumes pl: "job_payload (jdata job) = Json ev"
    and unk: "\<not> recognized (event_type ev)"
    and ref: "job_refers d job row"
  shows "fst (processJob flt now d job) = Inr ()
     \<and> merchants (snd (processJob flt now d job)) = merchants d
     \<and> subscriptions (snd (processJob flt now d job)) = subscriptions d
     \<and> orders (snd (processJob flt now d job)) = orders d
     \<and> map_option processed
          (find (\<lambda>e. se_id e = job_eventId (jdata job))
             (stripeEvents (snd (processJob flt now d job))))
        = Some True
     \<and> map_option processingError
          (find (\<lambda>e. se_id e = job_eventId (jdata job))
             (stripeEvents (snd (processJob flt now d job))))
        = Some (processingError row)"
proof -
  have byid: "find (\<lambda>e. se_id e = job_eventId (jdata job)) (stripeEvents d) = Some row"
    and bysid: "find (\<lambda>e. stripeEventId e = job_stripeEventId (jdata job)) (stripeEvents d)
                  = Some row"
    using ref by (simp_all add: job_refers_def)
  have noop: "processEventByType flt now d ev = (Inr (), d)"
    using unk by (simp add: processEventByType_def recognized_def)
  show ?thesis
  proof (cases "processed row")
    case True
    then have "processJob flt now d job = (Inr (), d)"
      using bysid by (simp add: processJob_def transaction_body_def Let_def)
    then show ?thesis using byid True by simp
  next
    case False
    have "processJob flt now d job =
       (Inr (), (snd (processEventByType flt now d ev))
        \<lparr>stripeEvents := update_where (\<lambda>e. se_id e = job_eventId (jdata job))
            (\<lambda>e. e\<lparr>processed := True, processedAt := Some now,
                    retryCount := int (attemptsMade job)\<rparr>) (stripeEvents d)\<rparr>)"
      by (rule processJob_success [OF _ pl _ byid]) (simp_all add: bysid False noop)
    moreover have "se_id row = job_eventId (jdata job)"
      using byid by (auto simp: find_Some_iff)
    ultimately show ?thesis
      using byid by (simp add: noop find_id_update_where)
  qed
qed

theorem unknown_type_marked_processed_witness:
  "fst (processJob no_faults 9 (ex_db [ex_row (ex_event ''charge.refunded'')] ex_orders)
          (ex_job (ex_row (ex_event ''charge.refunded'')) 0)) = Inr ()
   \<and> orders (snd (processJob no_faults 9 (ex_db [ex_row (ex_event ''charge.refunded'')] ex_orders)
          (ex_job (ex_row (ex_event ''charge.refunded'')) 0))) = ex_orders
   \<and> map processed
       (stripeEvents (snd (processJob no_faults 9
          (ex_db [ex_row (ex_event ''charge.refunded'')] ex_orders)
          (ex_job (ex_row (ex_event ''charge.refunded'')) 0)))) = [True]"
proof -
  let ?ev = "ex_event ''charge.refunded''"
  let ?d = "ex_db [ex_row ?ev] ex_orders"
  let ?job = "ex_job (ex_row ?ev) 0"
  have h1: "job_payload (jdata ?job) = Json ?ev" by (simp add: ex_defs)
  have h2: "\<not> recognized (event_type ?ev)" by (simp add: ex_defs recognized_def)
  have h3: "job_refers ?d ?job (ex_row ?ev)" by (simp add: ex_defs job_refers_def)
  have one: "\<exists>r. stripeEvents (snd (processJob no_faults 9 ?d ?job)) = [r]"
    by (simp add: processJob_def transaction_body_def JSON_parse_def processEventByType_def
        stripeEvent_update_def update_where_def Let_def ex_defs)
  have o: "orders ?d = ex_orders" by (simp add: ex_defs)
  show ?thesis
    using unknown_type_marked_processed [OF h1 h2 h3, of no_faults 9] one o
    by (auto split: if_splits)
qed

section \<open>Linking an order to an invoice by amount\<close>










section \<open>The failure reason\<close>

text \<open>
  C9 as stated fails: an invoice whose finalization error has no message and whose
  expanded charge carries a failure message gets the default, not the charge's message.
\<close>

theorem extractFailureReason_counterexample:
  "extractFailureReason
     (ex_invoice\<lparr>last_finalization_error := Some (FinalizationError None),
                 charge := Some (ChargeObject (Some ''Your card was declined.''))\<rparr>)
     = ''Payment failed''
   \<and> first_non_empty_reason
     (ex_invoice\<lparr>last_finalization_error := Some (FinalizationError None),
                 charge := Some (ChargeObject (Some ''Your card was declined.''))\<rparr>)
     = ''Your card was declined.''
   \<and> extractFailureReason
     (ex_invoice\<lparr>last_finalization_error := Some (FinalizationError None),
                 charge := Some (ChargeObject (Some ''Your card was declined.''))\<rparr>)
     \<noteq> first_non_empty_reason
     (ex_invoice\<lparr>last_finalization_error := Some (FinalizationError None),
                 charge := Some (ChargeObject (Some ''Your card was declined.''))\<rparr>)"
  by (simp add: extractFailureReason_def first_non_empty_reason_def finalization_message_def
      charge_failure_message_def or_default_def ex_invoice_def List.map_filter_def)

text \<open>
  C9, amended. When the invoice has a finalization error, the reason is that error's
  message if it is non-empty and the default otherwise, and the charge is not looked at;
  when it has none, the reason is the failure message of the expanded charge if that is
  non-empty and the default otherwise. So the reason is the first non-empty of the two
  messages whenever the invoice has no finalization error or that error has a non-empty
  message.
\<close>

theorem extractFailureReason_finalization_error_first:
  "extractFailureReason invoice =
     (case last_finalization_error invoice of
        Some fe \<Rightarrow> or_default (finalization_message invoice) ''Payment failed''
      | None \<Rightarrow> or_default (charge_failure_message invoice) ''Payment failed'')
   \<and> (last_finalization_error invoice = None
        \<or> or_default (finalization_message invoice) [] \<noteq> []
      \<longrightarrow> extractFailureReason invoice = first_non_empty_reason invoice)"
proof -
  have a: "extractFailureReason invoice =
     (case last_finalization_error invoice of
        Some fe \<Rightarrow> or_default (finalization_message invoice) ''Payment failed''
      | None \<Rightarrow> or_default (charge_failure_message invoice) ''Payment failed'')"
    by (simp add: extractFailureReason_def finalization_message_def charge_failure_message_def
        or_default_def split: option.splits finalization_error.splits charge_ref.splits)
  have b: "last_finalization_error invoice = None
        \<or> or_default (finalization_message invoice) [] \<noteq> []
      \<longrightarrow> extractFailureReason invoice = first_non_empty_reason invoice"
    unfolding a
    by (auto simp: first_non_empty_reason_def finalization_message_def charge_failure_message_def
        or_default_def List.map_filter_def
        split: option.splits finalization_error.splits charge_ref.splits)
  show ?thesis using a b by blast
qed

theorem extractFailureReason_finalization_error_first_witness:
  "extractFailureReason
     (ex_invoice\<lparr>last_finalization_error := Some (FinalizationError (Some ''Tax id invalid'')),
                 charge := Some (ChargeObject (Some ''Your card was declined.''))\<rparr>)
     = ''Tax id invalid''
   \<and> extractFailureReason
     (ex_invoice\<lparr>charge := Some (ChargeObject (Some ''Your card was declined.''))\<rparr>)
     = ''Your card was declined.''"
proof -
  let ?a = "ex_invoice\<lparr>last_finalization_error := Some (FinalizationError (Some ''Tax id invalid'')),
                 charge := Some (ChargeObject (Some ''Your card was declined.''))\<rparr>"
  let ?b = "ex_invoice\<lparr>charge := Some (ChargeObject (Some ''Your card was declined.''))\<rparr>"
  have ha: "or_default (finalization_message ?a) [] \<noteq> []"
    by (simp add: finalization_message_def or_default_def)
  have hb: "last_finalization_error ?b = None" by (simp add: ex_invoice_def)
  have sa: "first_non_empty_reason ?a = ''Tax id invalid''"
    by (simp add: first_non_empty_reason_def finalization_message_def charge_failure_message_def
        List.map_filter_def)
  have sb: "first_non_empty_reason ?b = ''Your card was declined.''"
    by (simp add: first_non_empty_reason_def finalization_message_def charge_failure_message_def
        List.map_filter_def ex_invoice_def)
  show ?thesis
    using extractFailureReason_finalization_error_first [of ?a, THEN conjunct2]
      extractFailureReason_finalization_error_first [of ?b, THEN conjunct2] ha hb sa sb
    by simp
qed

section \<open>What the processor writes to the retry count\<close>








section \<open>A handler that throws\<close>

lemma processJob_handler_throws:
  assumes unproc: "\<not> (case find (\<lambda>e. stripeEventId e = job_stripeEventId (jdata job)) (stripeEvents d)
                       of None \<Rightarrow> False | Some e \<Rightarrow> processed e)"
    and pl: "job_payload (jdata job) = Json ev"
    and thr: "processEventByType flt now d ev = (Inl err, d1)"
    and row: "find (\<lambda>e. se_id e = job_eventId (jdata job)) (stripeEvents d) = Some row"
  shows "processJob flt now d job =
     (Inl err, d1\<lparr>stripeEvents := update_where (\<lambda>e. se_id e = job_eventId (jdata job))
            (\<lambda>e. e\<lparr>retryCount := int (attemptsMade job) + 1,
                    processingError := Some (message err)\<rparr>) (stripeEvents d)\<rparr>)"
proof -
  have "transaction_body flt now d job = (Inl err, d1)"
    using unproc by (simp add: transaction_body_def Let_def pl JSON_parse_def thr)
  then show ?thesis by (rule processJob_failure [OF _ row])
qed

text \<open>
  C7, at the input where it fails. The job carries a payment-succeeded event for a
  subscription invoice; the merchants store answers and the orders store does not. The
  handler sets the subscription to \<open>active\<close> and then throws at the order lookup. The
  job ends with the error thrown on, the stored event not processed, its retry count 1
  (the attempt number) and its last error the message; and the subscription is still
  \<open>active\<close>: the handler's write is not undone.
\<close>

theorem handler_write_survives_rollback:
  "fst (processJob orders_fail 9
          (ex_db [ex_row (ex_event ''invoice.payment_succeeded'')] ex_orders)
          (ex_job (ex_row (ex_event ''invoice.payment_succeeded'')) 0))
     = Inl (StoreError ''orders store unavailable'')
   \<and> map sub_status
       (subscriptions (ex_db [ex_row (ex_event ''invoice.payment_succeeded'')] ex_orders))
     = [''incomplete'']
   \<and> map sub_status
       (subscriptions (snd (processJob orders_fail 9
          (ex_db [ex_row (ex_event ''invoice.payment_succeeded'')] ex_orders)
          (ex_job (ex_row (ex_event ''invoice.payment_succeeded'')) 0))))
     = [''active'']
   \<and> map (\<lambda>e. (processed e, retryCount e, processingError e))
       (stripeEvents (snd (processJob orders_fail 9
          (ex_db [ex_row (ex_event ''invoice.payment_succeeded'')] ex_orders)
          (ex_job (ex_row (ex_event ''invoice.payment_succeeded'')) 0))))
     = [(False, 1, Some ''orders store unavailable'')]"
proof -
  let ?ev = "ex_event ''invoice.payment_succeeded''"
  let ?d = "ex_db [ex_row ?ev] ex_orders"
  let ?job = "ex_job (ex_row ?ev) 0"
  have thr: "processEventByType orders_fail 9 ?d ?ev =
     (Inl (StoreError ''orders store unavailable''),
      ?d\<lparr>subscriptions :=
           [\<lparr>sub_id = ''s1'', sub_merchantId = ''m1'', stripeSubscriptionId = ''sub_1'',
             sub_status = ''active'', currentPeriodStart = Some 100000,
             currentPeriodEnd = Some 200000, canceledAt = None, cancelAtPeriodEnd = False\<rparr>]\<rparr>)"
    by (simp add: processEventByType_def handleInvoicePaymentSucceeded_def resolveMerchant_def
        customerId_of_def subscriptionId_of_def getMerchantByStripeCustomerId_def
        updateSubscriptionStatus_def apply_subscription_data_def no_additionalData_def
        date_of_seconds_def update_where_def store_rejects_def orders_fail_def Let_def ex_defs)
  have pj: "processJob orders_fail 9 ?d ?job =
     (Inl (StoreError ''orders store unavailable''),
      ?d\<lparr>subscriptions :=
           [\<lparr>sub_id = ''s1'', sub_merchantId = ''m1'', stripeSubscriptionId = ''sub_1'',
             sub_status = ''active'', currentPeriodStart = Some 100000,
             currentPeriodEnd = Some 200000, canceledAt = None, cancelAtPeriodEnd = False\<rparr>],
          stripeEvents := update_where (\<lambda>e. se_id e = job_eventId (jdata ?job))
            (\<lambda>e. e\<lparr>retryCount := int (attemptsMade ?job) + 1,
                    processingError := Some (message (StoreError ''orders store unavailable''))\<rparr>)
            (stripeEvents ?d)\<rparr>)"
    by (rule processJob_handler_throws [where ev = ?ev and row = "ex_row ?ev"])
      (simp_all add: thr, simp_all add: ex_defs)
  show ?thesis
    unfolding pj by (simp add: ex_defs update_where_def)
qed

section \<open>Ingestion of an event that is already stored\<close>

text \<open>
  When the queue answers, or the stored event is processed, a repeated delivery adds no
  row and returns the stored row; it adds a job only when the row is not processed and
  the queue holds no job under the provider event id, live or finished, and that job
  carries the payload and the retry count of the stored row.
\<close>

lemma handleWebhook_duplicate:
  assumes "vfy body sg = Inr event"
    and "find (\<lambda>e. stripeEventId e = event_id event) (stripeEvents d) = Some existing"
    and "processed existing \<or> reachable q"
  shows "handleWebhook vfy now newId d q body sg =
     (Inr existing, d,
      if processed existing \<or> getJob q (event_id event) \<noteq> None then q
      else q\<lparr>jobs := jobs q @ [heal_job existing event]\<rparr>)"
  using assms
  by (auto simp: handleWebhook_def jobExists_def enqueueWebhookEvent_def queue_add_def
      heal_job_def job_of_def Let_def)

lemma heal_job_carries_stored_state:
  "job_payload (jdata (heal_job existing event)) = payload existing
   \<and> job_retryCount (jdata (heal_job existing event)) = retryCount existing
   \<and> job_eventId (jdata (heal_job existing event)) = se_id existing
   \<and> jobId (heal_job existing event) = event_id event"
  by (simp add: heal_job_def job_of_def)

lemma handleWebhook_duplicate_no_live_job:
  assumes "vfy body sg = Inr event"
    and "find (\<lambda>e. stripeEventId e = event_id event) (stripeEvents d) = Some existing"
    and "processed existing \<or> reachable q"
    and "snd (snd (handleWebhook vfy now newId d q body sg)) \<noteq> q"
  shows "\<not> processed existing \<and> (\<forall>j\<in>set (jobs q). live j \<longrightarrow> jobId j \<noteq> event_id event)"
proof -
  have "\<not> processed existing \<and> getJob q (event_id event) = None"
    using handleWebhook_duplicate
            [where vfy = vfy and body = body and sg = sg and event = event and d = d
               and existing = existing and q = q and now = now and newId = newId]
          assms
    by (auto split: if_splits)
  then show ?thesis by (auto simp: getJob_def find_None_iff)
qed

lemma handleWebhook_duplicate_unreachable:
  assumes "vfy body sg = Inr event"
    and "find (\<lambda>e. stripeEventId e = event_id event) (stripeEvents d) = Some existing"
    and "\<not> processed existing" "\<not> reachable q"
  shows "handleWebhook vfy now newId d q body sg =
     (Inl (QueueError ''Connection is closed.''), d, q)"
  using assms by (auto simp: handleWebhook_def jobExists_def)

text \<open>
  C1, at the input where it fails. The event is stored and not processed, and the queue
  does not answer. The repeated delivery does not return the stored row: the error of the
  queue leaves \<^verbatim>\<open>handleWebhook\<close>. The first delivery of the same event with the same
  queue does return the row it stores, because there the call to the queue is inside a
  \<^verbatim>\<open>try\<close>.
\<close>

theorem duplicate_delivery_throws_when_queue_is_down:
  "handleWebhook (ex_verifier (ex_event ''invoice.payment_succeeded'')) 9 ''e2''
     (ex_db [ex_row (ex_event ''invoice.payment_succeeded'')] ex_orders) (ex_queue False)
     ''body'' ''sig''
   = (Inl (QueueError ''Connection is closed.''),
      ex_db [ex_row (ex_event ''invoice.payment_succeeded'')] ex_orders, ex_queue False)
   \<and> fst (handleWebhook (ex_verifier (ex_event ''invoice.payment_succeeded'')) 1 ''e1''
        (ex_db [] ex_orders) (ex_queue False) ''body'' ''sig'')
   = Inr (ex_row (ex_event ''invoice.payment_succeeded''))"
  by (simp add: handleWebhook_def jobExists_def enqueueWebhookEvent_def queue_add_def
      Let_def ex_defs)

section \<open>Manual reprocessing\<close>

lemma reprocessEvent_unknown:
  assumes "find (\<lambda>e. stripeEventId e = sid) (stripeEvents d) = None"
  shows "reprocessEvent d q sid =
     (Inl (BadRequestException (''Event '' @ sid @ '' not found'')), d, q)"
  using assms by (simp add: reprocessEvent_def)

lemma reprocessEvent_processed:
  assumes "find (\<lambda>e. stripeEventId e = sid) (stripeEvents d) = Some ev" "processed ev"
  shows "reprocessEvent d q sid =
     (Inl (ConflictException (''Event '' @ sid @ '' already processed'')), d, q)"
  using assms by (simp add: reprocessEvent_def)

lemma reprocessEvent_unprocessed:
  assumes "find (\<lambda>e. stripeEventId e = sid) (stripeEvents d) = Some ev"
    and "\<not> processed ev" "reachable q"
  shows "reprocessEvent d q sid =
     (Inr (), d,
      if getJob q (stripeEventId ev) \<noteq> None then q
      else q\<lparr>jobs := jobs q @ [reprocess_job ev]\<rparr>)"
  using assms
  by (auto simp: reprocessEvent_def enqueueWebhookEvent_def queue_add_def reprocess_job_def
      job_of_def Let_def)

text \<open>
  C3, at the input where it fails. No event with the provider event id is stored.
  Reprocessing leaves store and queue as they are and throws, but what it throws is a
  \<^verbatim>\<open>BadRequestException\<close> (status 400) whose message says that the event was not
  found, not a not-found error (status 404).
\<close>

theorem reprocess_unknown_event_is_bad_request:
  "reprocessEvent (ex_db [] ex_orders) (ex_queue True) ''evt_1''
   = (Inl (BadRequestException ''Event evt_1 not found''), ex_db [] ex_orders, ex_queue True)
   \<and> fst (reprocessEvent (ex_db [] ex_orders) (ex_queue True) ''evt_1'')
       \<noteq> Inl (NotFoundException ''Event evt_1 not found'')"
  by (simp add: reprocessEvent_def ex_defs)

section \<open>The same transitions through the event handlers\<close>

lemma orderStatusOf_cong: "orders d = orders d' \<Longrightarrow> orderStatusOf d i = orderStatusOf d' i"
  by (simp add: orderStatusOf_def getOrderByInvoiceId_def)

lemma markOrderAsPaid_orders_cong:
  "orders d = orders d' \<Longrightarrow>
     orders (snd (markOrderAsPaid now d i pa)) = orders (snd (markOrderAsPaid now d' i pa))"
  by (simp add: markOrderAsPaid_def Let_def split: option.splits)

lemma markOrderAsPaymentFailed_orders_cong:
  "orders d = orders d' \<Longrightarrow>
     orders (snd (markOrderAsPaymentFailed now d i rs))
       = orders (snd (markOrderAsPaymentFailed now d' i rs))"
  by (simp add: markOrderAsPaymentFailed_def Let_def split: option.splits)

lemma markOrderAsPaid_merchants: "merchants (snd (markOrderAsPaid now d i pa)) = merchants d"
  by (simp add: markOrderAsPaid_def Let_def split: option.splits)

lemma markOrderAsPaymentFailed_merchants:
  "merchants (snd (markOrderAsPaymentFailed now d i rs)) = merchants d"
  by (simp add: markOrderAsPaymentFailed_def Let_def split: option.splits)

lemma resolveMerchant_cong:
  "merchants d = merchants d' \<Longrightarrow> resolveMerchant flt d c = resolveMerchant flt d' c"
  by (simp add: resolveMerchant_def getMerchantByStripeCustomerId_def split: option.splits)

lemma handleInvoicePaymentSucceeded_linked:
  assumes m: "resolveMerchant no_faults d (customerId_of (data_object ev)) = Inr (Some m)"
    and ord: "getOrderByInvoiceId d (object_id (data_object ev)) = Some ord"
  shows "orders (snd (handleInvoicePaymentSucceeded no_faults now d ev))
           = orders (snd (markOrderAsPaid now d (object_id (data_object ev)) (Some now)))"
    and "merchants (snd (handleInvoicePaymentSucceeded no_faults now d ev)) = merchants d"
proof -
  define inv where "inv = data_object ev"
  define d1 where "d1 = (case subscriptionId_of inv of
                    None \<Rightarrow> d
                  | Some subscriptionId \<Rightarrow>
                      snd (updateSubscriptionStatus d subscriptionId (Some ''active'')
                             (no_additionalData
                                \<lparr>ad_currentPeriodStart := date_of_seconds (period_start inv),
                                 ad_currentPeriodEnd := date_of_seconds (period_end inv)\<rparr>)))"
  have o1: "orders d1 = orders d" and m1: "merchants d1 = merchants d"
    by (simp_all add: d1_def updateSubscriptionStatus_frame split: option.splits)
  have ord1: "getOrderByInvoiceId d1 (object_id inv) = Some ord"
    using ord by (simp add: getOrderByInvoiceId_def o1 inv_def)
  have h: "handleInvoicePaymentSucceeded no_faults now d ev =
             (Inr (), snd (markOrderAsPaid now d1 (object_id inv) (Some now)))"
    using m ord1
    by (simp add: handleInvoicePaymentSucceeded_def Let_def inv_def [symmetric]
        d1_def [symmetric] no_faults_def)
  show "orders (snd (handleInvoicePaymentSucceeded no_faults now d ev))
           = orders (snd (markOrderAsPaid now d (object_id (data_object ev)) (Some now)))"
    using markOrderAsPaid_orders_cong [OF o1] by (simp add: h inv_def)
  show "merchants (snd (handleInvoicePaymentSucceeded no_faults now d ev)) = merchants d"
    by (simp add: h markOrderAsPaid_merchants m1)
qed

lemma handleInvoicePaymentFailed_linked:
  assumes m: "resolveMerchant no_faults d (customerId_of (data_object ev)) = Inr (Some m)"
    and ord: "getOrderByInvoiceId d (object_id (data_object ev)) = Some ord"
  shows "orders (snd (handleInvoicePaymentFailed no_faults now d ev))
           = orders (snd (markOrderAsPaymentFailed now d (object_id (data_object ev))
                            (Some (extractFailureReason (data_object ev)))))"
    and "merchants (snd (handleInvoicePaymentFailed no_faults now d ev)) = merchants d"
proof -
  define inv where "inv = data_object ev"
  define d1 where "d1 = (case subscriptionId_of inv of
                    None \<Rightarrow> d
                  | Some subscriptionId \<Rightarrow>
                      snd (updateSubscriptionStatus d subscriptionId (Some ''past_due'')
                             no_additionalData))"
  have o1: "orders d1 = orders d" and m1: "merchants d1 = merchants d"
    by (simp_all add: d1_def updateSubscriptionStatus_frame split: option.splits)
  have ord1: "getOrderByInvoiceId d1 (object_id inv) = Some ord"
    using ord by (simp add: getOrderByInvoiceId_def o1 inv_def)
  have h: "handleInvoicePaymentFailed no_faults now d ev =
             (Inr (), snd (markOrderAsPaymentFailed now d1 (object_id inv)
                             (Some (extractFailureReason inv))))"
    using m ord1
    by (simp add: handleInvoicePaymentFailed_def Let_def inv_def [symmetric]
        d1_def [symmetric] no_faults_def)
  show "orders (snd (handleInvoicePaymentFailed no_faults now d ev))
           = orders (snd (markOrderAsPaymentFailed now d (object_id (data_object ev))
                            (Some (extractFailureReason (data_object ev)))))"
    using markOrderAsPaymentFailed_orders_cong [OF o1] by (simp add: h inv_def)
  show "merchants (snd (handleInvoicePaymentFailed no_faults now d ev)) = merchants d"
    by (simp add: h markOrderAsPaymentFailed_merchants m1)
qed

text \<open>
  Two events for one invoice, one payment-failed and one payment-succeeded, whose
  customer resolves to a merchant: handled in either order, in runs without rejected
  store calls, they leave the order that references the invoice paid.
\<close>

lemma handlers_in_either_order:
  assumes inv: "data_object evF = data_object evS"
    and m: "resolveMerchant no_faults d (customerId_of (data_object evS)) = Inr (Some m)"
    and ord: "getOrderByInvoiceId d (object_id (data_object evS)) = Some ord"
  shows "orderStatusOf
           (snd (handleInvoicePaymentSucceeded no_faults t2
              (snd (handleInvoicePaymentFailed no_faults t1 d evF)) evS))
           (object_id (data_object evS)) = Some PAID"
    and "orderStatusOf
           (snd (handleInvoicePaymentFailed no_faults t2
              (snd (handleInvoicePaymentSucceeded no_faults t1 d evS)) evF))
           (object_id (data_object evS)) = Some PAID"
proof -
  let ?i = "object_id (data_object evS)"
  let ?rs = "Some (extractFailureReason (data_object evS))"
  let ?dF = "snd (handleInvoicePaymentFailed no_faults t1 d evF)"
  let ?dS = "snd (handleInvoicePaymentSucceeded no_faults t1 d evS)"
  have mF: "resolveMerchant no_faults d (customerId_of (data_object evF)) = Inr (Some m)"
    and ordF: "getOrderByInvoiceId d (object_id (data_object evF)) = Some ord"
    using m ord inv by simp_all
  have oF: "orders ?dF = orders (snd (markOrderAsPaymentFailed t1 d ?i ?rs))"
    using handleInvoicePaymentFailed_linked(1) [OF mF ordF, of t1] inv by simp
  have mdF: "merchants ?dF = merchants d"
    by (rule handleInvoicePaymentFailed_linked(2) [OF mF ordF])
  have oS: "orders ?dS = orders (snd (markOrderAsPaid t1 d ?i (Some t1)))"
    by (rule handleInvoicePaymentSucceeded_linked(1) [OF m ord])
  have mdS: "merchants ?dS = merchants d"
    by (rule handleInvoicePaymentSucceeded_linked(2) [OF m ord])
  have "orderStatusOf ?dF ?i = Some (if order_status ord = PAID then PAID else PAYMENT_FAILED)"
    using markOrderAsPaymentFailed_status [OF ord, of t1 ?rs] orderStatusOf_cong [OF oF, of ?i]
    by simp
  then obtain o1 where o1: "getOrderByInvoiceId ?dF ?i = Some o1"
    by (auto simp: orderStatusOf_def)
  have m1: "resolveMerchant no_faults ?dF (customerId_of (data_object evS)) = Inr (Some m)"
    using resolveMerchant_cong [OF mdF] m by simp
  have "orders (snd (handleInvoicePaymentSucceeded no_faults t2 ?dF evS))
          = orders (snd (markOrderAsPaid t2 ?dF ?i (Some t2)))"
    by (rule handleInvoicePaymentSucceeded_linked(1) [OF m1 o1])
  then show "orderStatusOf (snd (handleInvoicePaymentSucceeded no_faults t2 ?dF evS)) ?i = Some PAID"
    using markOrderAsPaid_status [OF o1, of t2 "Some t2"] orderStatusOf_cong by metis
  have pS: "orderStatusOf ?dS ?i = Some PAID"
    using markOrderAsPaid_status [OF ord, of t1 "Some t1"] orderStatusOf_cong [OF oS, of ?i]
    by simp
  then obtain o2 where o2: "getOrderByInvoiceId ?dS ?i = Some o2" and s2: "order_status o2 = PAID"
    by (auto simp: orderStatusOf_def)
  have m2: "resolveMerchant no_faults ?dS (customerId_of (data_object evF)) = Inr (Some m)"
    using resolveMerchant_cong [OF mdS] m inv by simp
  have o2F: "getOrderByInvoiceId ?dS (object_id (data_object evF)) = Some o2"
    using o2 inv by simp
  have "orders (snd (handleInvoicePaymentFailed no_faults t2 ?dS evF))
          = orders (snd (markOrderAsPaymentFailed t2 ?dS ?i ?rs))"
    using handleInvoicePaymentFailed_linked(1) [OF m2 o2F, of t2] inv by simp
  then have "orderStatusOf (snd (handleInvoicePaymentFailed no_faults t2 ?dS evF)) ?i
          = orderStatusOf (snd (markOrderAsPaymentFailed t2 ?dS ?i ?rs)) ?i"
    by (rule orderStatusOf_cong)
  then show "orderStatusOf (snd (handleInvoicePaymentFailed no_faults t2 ?dS evF)) ?i = Some PAID"
    using markOrderAsPaymentFailed_status [OF o2, of t2 ?rs] s2 by simp
qed

end
